theory Spec2Isabelle
  imports Complex_Main "HOL-Library.Sublist"
begin

section \<open>The two-stage fallback policy of rasa\_core\<close>

text \<open>
  A shallow embedding of \<^verbatim>\<open>rasa_core/policies/two_stage_fallback.py\<close>. Python floats
  are modelled as \<^typ>\<open>real\<close>: the module never computes with them, it only stores,
  compares and passes them on. Exceptions are values of \<open>error\<close> on the left of a sum.
  \<open>IllTypedValue\<close> is the one value of \<open>error\<close> that is not a Python exception: see
  \<open>cls_kwargs\<close> below.
\<close>

subsection \<open>Errors\<close>

datatype error =
    InvalidDomain string
  | ActionNotFound string
  | TypeError
  | JSONDecodeError
  | FileNotFoundError
  | NotADirectoryError
  | IsADirectoryError
  | IllTypedValue string

subsection \<open>Reserved intents\<close>

text \<open>
  Modelled from the spec: the constants \<^verbatim>\<open>USER_INTENT_CONFIRM\<close> and
  \<^verbatim>\<open>USER_INTENT_DENY\<close> of \<^verbatim>\<open>rasa_core/constants.py\<close>, which is not among the
  sources. The spec names the two reserved intents "confirm" and "deny".
\<close>

definition USER_INTENT_CONFIRM :: string where
  "USER_INTENT_CONFIRM = ''confirm''"

definition USER_INTENT_DENY :: string where
  "USER_INTENT_DENY = ''deny''"

subsection \<open>Domain and score vectors\<close>

text \<open>
  Modelled from the spec: the class \<^verbatim>\<open>Domain\<close> of \<^verbatim>\<open>rasa_core/domain.py\<close>, which is
  not among the sources. The policy reads its intents (by membership only) and, through
  \<^verbatim>\<open>confidence_scores_for\<close>, its ordered catalogue of action names.
\<close>

record domain =
  intents :: "string list"
  action_names :: "string list"

fun index_of :: "'a \<Rightarrow> 'a list \<Rightarrow> nat option" where
  "index_of x [] = None"
| "index_of x (y # ys) = (if x = y then Some 0 else map_option Suc (index_of x ys))"

definition num_actions :: "domain \<Rightarrow> nat" where
  "num_actions d = length (action_names d)"

definition index_for_action :: "domain \<Rightarrow> string \<Rightarrow> nat option" where
  "index_for_action d action_name = index_of action_name (action_names d)"

text \<open>
  Modelled from the spec: \<^verbatim>\<open>confidence_scores_for\<close> of
  \<^verbatim>\<open>rasa_core/policies/policy.py\<close>, which is not among the sources. The spec (4.3): a
  vector over every action of the domain with the named action set to the weight and all
  others at zero; naming an action absent from the domain is an error (7).
\<close>

definition confidence_scores_for :: "string \<Rightarrow> real \<Rightarrow> domain \<Rightarrow> error + real list" where
  "confidence_scores_for action_name val d =
     (case index_for_action d action_name of
        None \<Rightarrow> Inl (ActionNotFound action_name)
      | Some idx \<Rightarrow> Inr ((replicate (num_actions d) 0)[idx := val]))"

subsection \<open>Tracker\<close>

text \<open>
  Modelled from the spec: the class \<^verbatim>\<open>DialogueStateTracker\<close> of
  \<^verbatim>\<open>rasa_core/trackers.py\<close>, which is not among the sources. The policy reads three
  things of it. \<^verbatim>\<open>tracker.latest_message.parse_data["intent"]\<close> is a dict whose keys
  \<^verbatim>\<open>name\<close> and \<^verbatim>\<open>confidence\<close> may be absent (\<open>None\<close> here); the policy reads it with
  \<^verbatim>\<open>.get\<close>. \<^verbatim>\<open>tracker.latest_action_name\<close> is the name of the latest action, or
  Python's \<^verbatim>\<open>None\<close> on an empty history. \<^verbatim>\<open>tracker.last_executed_has(name, skip)\<close> is
  the spec's \<open>lastSystemActionIs\<close>: true if the action \<open>skip\<close> positions back from the
  most recent system action equals \<open>name\<close>, false on a shorter history; \<open>executed\<close> is
  the sequence of system actions that query ranges over, most recent first. Nothing is
  assumed about how \<open>executed\<close> and \<open>latest_action_name\<close> relate (the tracker may, for
  instance, leave the listen action out of the former).
\<close>

record intent_dict =
  name :: "string option"
  confidence :: "real option"

record nlu_data =
  intent :: intent_dict

record user_message =
  parse_data :: nlu_data

record tracker =
  latest_message :: user_message
  latest_action_name :: "string option"
  executed :: "string list"

definition last_executed_has :: "tracker \<Rightarrow> string \<Rightarrow> nat \<Rightarrow> bool" where
  "last_executed_has t action_name skip =
     (skip < length (executed t) \<and> executed t ! skip = action_name)"

subsection \<open>The policy and what it imports\<close>

record policy =
  nlu_threshold :: real
  core_threshold :: real
  fallback_action_name :: string

text \<open>
  The module imports four action names and \<^verbatim>\<open>FALLBACK_SCORE\<close> from modules that are
  not among the sources, and inherits \<^verbatim>\<open>should_fallback\<close> and \<^verbatim>\<open>fallback_scores\<close>
  from \<^verbatim>\<open>FallbackPolicy\<close>, which is not among them either. They are parameters of
  the model, collected in one record, so every theorem holds whatever their values are
  (up to the hypotheses it states).
\<close>

record env =
  ACTION_REVERT_FALLBACK_EVENTS :: string
  ACTION_DEFAULT_FALLBACK_NAME :: string
  ACTION_DEFAULT_ASK_CLARIFICATION :: string
  ACTION_DEFAULT_ASK_CONFIRMATION :: string
  FALLBACK_SCORE :: real
  should_fallback :: "policy \<Rightarrow> real \<Rightarrow> string option \<Rightarrow> bool"
  fallback_scores :: "policy \<Rightarrow> domain \<Rightarrow> real \<Rightarrow> error + real list"

text \<open>The constructor: each argument left out (\<open>None\<close>) takes its default.\<close>

definition TwoStageFallbackPolicy ::
    "env \<Rightarrow> real option \<Rightarrow> real option \<Rightarrow> string option \<Rightarrow> policy" where
  "TwoStageFallbackPolicy e nlu core fb =
     \<lparr> nlu_threshold = (case nlu of None \<Rightarrow> 0.3 | Some x \<Rightarrow> x),
       core_threshold = (case core of None \<Rightarrow> 0.3 | Some x \<Rightarrow> x),
       fallback_action_name =
         (case fb of None \<Rightarrow> ACTION_DEFAULT_FALLBACK_NAME e | Some x \<Rightarrow> x) \<rparr>"

subsection \<open>The module-level predicates\<close>

definition has_user_confirmed :: "env \<Rightarrow> string option \<Rightarrow> tracker \<Rightarrow> bool" where
  "has_user_confirmed e last_intent t =
     (last_executed_has t (ACTION_DEFAULT_ASK_CONFIRMATION e) 0
      \<and> last_intent = Some USER_INTENT_CONFIRM)"

definition has_user_denied :: "env \<Rightarrow> string option \<Rightarrow> tracker \<Rightarrow> bool" where
  "has_user_denied e last_intent t =
     (last_executed_has t (ACTION_DEFAULT_ASK_CONFIRMATION e) 0
      \<and> last_intent = Some USER_INTENT_DENY)"

definition has_user_clarified :: "env \<Rightarrow> tracker \<Rightarrow> bool" where
  "has_user_clarified e t = last_executed_has t (ACTION_DEFAULT_ASK_CLARIFICATION e) 0"

subsection \<open>Prediction\<close>

definition is_user_input_expected :: "env \<Rightarrow> policy \<Rightarrow> tracker \<Rightarrow> bool" where
  "is_user_input_expected e self t =
     (latest_action_name t \<in> set [Some (ACTION_DEFAULT_ASK_CONFIRMATION e),
                                   Some (ACTION_DEFAULT_ASK_CLARIFICATION e),
                                   Some (fallback_action_name self)])"

definition results_for_user_denied ::
    "env \<Rightarrow> policy \<Rightarrow> tracker \<Rightarrow> domain \<Rightarrow> error + real list" where
  "results_for_user_denied e self t d =
     (let has_denied_before = last_executed_has t (ACTION_DEFAULT_ASK_CLARIFICATION e) 1
      in if has_denied_before
         then confidence_scores_for (fallback_action_name self) (FALLBACK_SCORE e) d
         else confidence_scores_for (ACTION_DEFAULT_ASK_CLARIFICATION e) (FALLBACK_SCORE e) d)"

text \<open>
  The text of the \<^verbatim>\<open>InvalidDomain\<close> exception: the template
  \<^verbatim>\<open>'The intents {} and {} must be present in the domain file to use this policy.'\<close>
  with its two placeholders filled by \<^verbatim>\<open>format\<close>.
\<close>

definition intents_message :: "string \<Rightarrow> string \<Rightarrow> string" where
  "intents_message a b =
     ''The intents '' @ a @ '' and '' @ b
       @ '' must be present in the domain file to use this policy.''"

definition predict_action_probabilities ::
    "env \<Rightarrow> policy \<Rightarrow> tracker \<Rightarrow> domain \<Rightarrow> error + real list" where
  "predict_action_probabilities e self t d =
     (if USER_INTENT_CONFIRM \<notin> set (intents d) \<or> USER_INTENT_DENY \<notin> set (intents d)
      then Inl (InvalidDomain (intents_message USER_INTENT_CONFIRM USER_INTENT_CONFIRM))
      else
        let nlu = parse_data (latest_message t);
            nlu_confidence = (case confidence (intent nlu) of None \<Rightarrow> 1 | Some c \<Rightarrow> c);
            last_intent_name = name (intent nlu);
            should_fb = should_fallback e self nlu_confidence (latest_action_name t);
            user_clarified = has_user_clarified e t
        in if is_user_input_expected e self t
           then confidence_scores_for ''action_listen'' (FALLBACK_SCORE e) d
           else if has_user_denied e last_intent_name t
           then results_for_user_denied e self t d
           else if user_clarified \<and> should_fb
           then confidence_scores_for (ACTION_DEFAULT_ASK_CONFIRMATION e) (FALLBACK_SCORE e) d
           else if has_user_confirmed e last_intent_name t \<or> user_clarified
           then confidence_scores_for (ACTION_REVERT_FALLBACK_EVENTS e) (FALLBACK_SCORE e) d
           else if last_executed_has t (ACTION_DEFAULT_ASK_CONFIRMATION e) 0
           then (if \<not> should_fb
                 then confidence_scores_for (ACTION_REVERT_FALLBACK_EVENTS e) (FALLBACK_SCORE e) d
                 else confidence_scores_for (fallback_action_name self) (FALLBACK_SCORE e) d)
           else if should_fb
           then confidence_scores_for (ACTION_DEFAULT_ASK_CONFIRMATION e) (FALLBACK_SCORE e) d
           else fallback_scores e self d (core_threshold self))"

subsection \<open>Persistence\<close>

text \<open>
  Modelled from the spec: the file system and the JSON codec behind \<^verbatim>\<open>persist\<close> and
  \<^verbatim>\<open>load\<close> (\<^verbatim>\<open>os.path\<close>, \<^verbatim>\<open>json\<close>, and \<^verbatim>\<open>create_dir_for_file\<close>,
  \<^verbatim>\<open>dump_obj_as_json_to_file\<close> and \<^verbatim>\<open>read_file\<close> of \<^verbatim>\<open>rasa_core/utils.py\<close>), none of
  which is among the sources. A file holds the document its text encodes: an object of
  flat key/value pairs (the spec's persisted record), some other JSON value, or text that
  \<^verbatim>\<open>json.loads\<close> rejects. So the model takes for granted that \<^verbatim>\<open>json.loads\<close> gives
  back the dict that \<^verbatim>\<open>json.dumps\<close> was given. A file system is the set of its
  directories (named without trailing slashes) and a map from paths to files; permissions
  and space are not modelled. Paths follow \<^verbatim>\<open>posixpath\<close>.
\<close>

datatype json_value = JNumber real | JString string | JOther

datatype document = Object "(string \<times> json_value) list" | NonObject | Malformed

record filesystem =
  dirs :: "string set"
  files :: "string \<rightharpoonup> document"

definition os_path_join :: "string \<Rightarrow> string \<Rightarrow> string" where
  "os_path_join a b =
     (if b \<noteq> [] \<and> hd b = CHR ''/'' then b
      else if a = [] \<or> last a = CHR ''/'' then a @ b
      else a @ ''/'' @ b)"

definition rstrip_slash :: "string \<Rightarrow> string" where
  "rstrip_slash p = rev (dropWhile (\<lambda>c. c = CHR ''/'') (rev p))"

definition os_path_dirname :: "string \<Rightarrow> string" where
  "os_path_dirname p =
     (let head = rev (dropWhile (\<lambda>c. c \<noteq> CHR ''/'') (rev p))
      in if head \<noteq> [] \<and> rstrip_slash head \<noteq> [] then rstrip_slash head else head)"

text \<open>
  Modelled from the spec: \<^verbatim>\<open>os.path.isdir\<close>, \<^verbatim>\<open>isfile\<close> and \<^verbatim>\<open>exists\<close>. A path
  names a directory when, its trailing slashes removed, it is the root or one of the
  directories; the empty path names nothing.
\<close>

definition os_path_isdir :: "filesystem \<Rightarrow> string \<Rightarrow> bool" where
  "os_path_isdir fs p = (p \<noteq> [] \<and> (rstrip_slash p = [] \<or> rstrip_slash p \<in> dirs fs))"

definition os_path_isfile :: "filesystem \<Rightarrow> string \<Rightarrow> bool" where
  "os_path_isfile fs p = (files fs p \<noteq> None)"

definition os_path_exists :: "filesystem \<Rightarrow> string \<Rightarrow> bool" where
  "os_path_exists fs p = (os_path_isdir fs p \<or> os_path_isfile fs p)"

text \<open>
  Modelled from the spec: \<^verbatim>\<open>create_dir_for_file\<close> and \<^verbatim>\<open>dump_obj_as_json_to_file\<close>
  of \<^verbatim>\<open>rasa_core/utils.py\<close> (spec 4.4: "creating intermediate directories as needed").
  The first calls \<^verbatim>\<open>os.makedirs\<close> on the directory part of the file's path and lets
  every error but "already exists" through; \<open>parent_dirs d\<close> lists \<open>d\<close> and its
  ancestors. The second writes the file, which needs its directory to exist and the path
  not to name a directory. \<open>json_loads\<close> is \<^verbatim>\<open>json.loads\<close> on the text of a file.
\<close>

definition parent_dirs :: "string \<Rightarrow> string list" where
  "parent_dirs d =
     filter (\<lambda>q. q \<noteq> [])
       (map rstrip_slash (d # map (\<lambda>i. take i d) (filter (\<lambda>i. d ! i = CHR ''/'') [0..<length d])))"

definition create_dir_for_file :: "string \<Rightarrow> filesystem \<Rightarrow> error + filesystem" where
  "create_dir_for_file file_path fs =
     (let d = os_path_dirname file_path
      in if d = [] then Inl FileNotFoundError
         else if os_path_exists fs d then Inr fs
         else if list_ex (os_path_isfile fs) (parent_dirs d) then Inl NotADirectoryError
         else Inr (fs\<lparr>dirs := dirs fs \<union> set (parent_dirs d)\<rparr>))"

definition dump_obj_as_json_to_file ::
    "string \<Rightarrow> (string \<times> json_value) list \<Rightarrow> filesystem \<Rightarrow> error + filesystem" where
  "dump_obj_as_json_to_file filename obj fs =
     (let d = os_path_dirname filename
      in if os_path_isdir fs filename then Inl IsADirectoryError
         else if d \<noteq> [] \<and> os_path_isfile fs d then Inl NotADirectoryError
         else if d \<noteq> [] \<and> \<not> os_path_isdir fs d then Inl FileNotFoundError
         else Inr (fs\<lparr>files := (files fs)(filename \<mapsto> Object obj)\<rparr>))"

definition json_loads :: "document \<Rightarrow> error + document" where
  "json_loads doc = (case doc of Malformed \<Rightarrow> Inl JSONDecodeError | _ \<Rightarrow> Inr doc)"

text \<open>
  \<^verbatim>\<open>cls(**meta)\<close>: keyword binding against the three parameters of the constructor. A
  key that is no parameter raises \<^verbatim>\<open>TypeError\<close> (unexpected keyword argument), as does
  a \<^verbatim>\<open>meta\<close> that is no mapping; a parameter without a key takes its default. Python
  binds a value without checking it against the parameter's annotation (\<^verbatim>\<open>float\<close>,
  \<^verbatim>\<open>Text\<close>); the typed record \<open>policy\<close> cannot hold such an instance, and the model
  reports it as \<open>IllTypedValue\<close> with the parameter's name. No theorem below is about
  that case.
\<close>

fun float_kwarg :: "json_value option \<Rightarrow> real option option" where
  "float_kwarg None = Some None"
| "float_kwarg (Some (JNumber r)) = Some (Some r)"
| "float_kwarg (Some _) = None"

fun text_kwarg :: "json_value option \<Rightarrow> string option option" where
  "text_kwarg None = Some None"
| "text_kwarg (Some (JString s)) = Some (Some s)"
| "text_kwarg (Some _) = None"

definition parameter_names :: "string list" where
  "parameter_names = [''nlu_threshold'', ''core_threshold'', ''fallback_action_name'']"

definition cls_kwargs :: "env \<Rightarrow> document \<Rightarrow> error + policy" where
  "cls_kwargs e meta =
     (case meta of
        Object kwargs \<Rightarrow>
          if list_ex (\<lambda>k. k \<notin> set parameter_names) (map fst kwargs) then Inl TypeError
          else (case float_kwarg (map_of kwargs ''nlu_threshold'') of
                  None \<Rightarrow> Inl (IllTypedValue ''nlu_threshold'')
                | Some nlu \<Rightarrow>
              (case float_kwarg (map_of kwargs ''core_threshold'') of
                  None \<Rightarrow> Inl (IllTypedValue ''core_threshold'')
                | Some core \<Rightarrow>
              (case text_kwarg (map_of kwargs ''fallback_action_name'') of
                  None \<Rightarrow> Inl (IllTypedValue ''fallback_action_name'')
                | Some fb \<Rightarrow> Inr (TwoStageFallbackPolicy e nlu core fb))))
      | _ \<Rightarrow> Inl TypeError)"

definition persist :: "policy \<Rightarrow> string \<Rightarrow> filesystem \<Rightarrow> error + filesystem" where
  "persist self path fs =
     (let config_file = os_path_join path ''two_stage_fallback_policy.json'';
          meta = [(''nlu_threshold'', JNumber (nlu_threshold self)),
                  (''core_threshold'', JNumber (core_threshold self)),
                  (''fallback_action_name'', JString (fallback_action_name self))]
      in case create_dir_for_file config_file fs of
           Inl err \<Rightarrow> Inl err
         | Inr fs' \<Rightarrow> dump_obj_as_json_to_file config_file meta fs')"

definition load :: "env \<Rightarrow> string \<Rightarrow> filesystem \<Rightarrow> error + policy" where
  "load e path fs =
     (let meta =
            (if os_path_exists fs path
             then (let meta_path = os_path_join path ''two_stage_fallback_policy.json''
                   in if os_path_isfile fs meta_path
                      then json_loads (the (files fs meta_path))
                      else Inr (Object []))
             else Inr (Object []))
      in case meta of Inl err \<Rightarrow> Inl err | Inr m \<Rightarrow> cls_kwargs e m)"

subsection \<open>Sample values\<close>

text \<open>
  Modelled from the spec: the two methods inherited from \<^verbatim>\<open>FallbackPolicy\<close>
  (\<^verbatim>\<open>rasa_core/policies/fallback.py\<close>, not among the sources), as one instance of the
  parameters \<open>should_fallback\<close> and \<open>fallback_scores\<close>. The spec (4.2): low
  confidence is a confidence below \<open>nluThreshold\<close>, never flagged when the last action is
  the policy's own fallback action. The spec does not say which entry of the baseline
  vector carries the threshold; here it is the fallback action's. These two, and the
  values after them, only instantiate the theorems at concrete inputs.
\<close>

definition FallbackPolicy_should_fallback :: "policy \<Rightarrow> real \<Rightarrow> string option \<Rightarrow> bool" where
  "FallbackPolicy_should_fallback self nlu_confidence last_action_name =
     (nlu_confidence < nlu_threshold self
      \<and> last_action_name \<noteq> Some (fallback_action_name self))"

definition FallbackPolicy_fallback_scores ::
    "policy \<Rightarrow> domain \<Rightarrow> real \<Rightarrow> error + real list" where
  "FallbackPolicy_fallback_scores self d fallback_score =
     confidence_scores_for (fallback_action_name self) fallback_score d"

definition example_env :: env where
  "example_env =
     \<lparr> ACTION_REVERT_FALLBACK_EVENTS = ''action_revert_fallback_events'',
       ACTION_DEFAULT_FALLBACK_NAME = ''action_default_fallback'',
       ACTION_DEFAULT_ASK_CLARIFICATION = ''action_default_ask_clarification'',
       ACTION_DEFAULT_ASK_CONFIRMATION = ''action_default_ask_confirmation'',
       FALLBACK_SCORE = 1,
       should_fallback = FallbackPolicy_should_fallback,
       fallback_scores = FallbackPolicy_fallback_scores \<rparr>"

definition example_policy :: policy where
  "example_policy = TwoStageFallbackPolicy example_env None None None"

definition example_domain :: domain where
  "example_domain =
     \<lparr> intents = [''greet'', ''confirm'', ''deny''],
       action_names = [''action_listen'', ''action_default_fallback'',
                       ''action_revert_fallback_events'', ''action_default_ask_confirmation'',
                       ''action_default_ask_clarification'', ''utter_greet''] \<rparr>"

definition domain_without_deny :: domain where
  "domain_without_deny = example_domain \<lparr> intents := [''greet'', ''confirm''] \<rparr>"

text \<open>
  \<open>tracker_of n c a xs\<close>: the tracker whose latest message has intent name \<open>n\<close> and
  confidence \<open>c\<close>, whose latest action is \<open>a\<close> and whose executed system actions are
  \<open>xs\<close>, most recent first.
\<close>

definition tracker_of ::
    "string option \<Rightarrow> real option \<Rightarrow> string option \<Rightarrow> string list \<Rightarrow> tracker" where
  "tracker_of n c a xs =
     \<lparr> latest_message = \<lparr> parse_data = \<lparr> intent = \<lparr> name = n, confidence = c \<rparr> \<rparr> \<rparr>,
       latest_action_name = a,
       executed = xs \<rparr>"

definition empty_tracker :: tracker where
  "empty_tracker = tracker_of None None None []"

definition empty_filesystem :: filesystem where
  "empty_filesystem = \<lparr> dirs = {}, files = Map.empty \<rparr>"

section \<open>Evaluation and helper lemmas\<close>

lemmas sample_defs = example_env_def example_policy_def example_domain_def
  domain_without_deny_def tracker_of_def empty_tracker_def TwoStageFallbackPolicy_def
  FallbackPolicy_should_fallback_def FallbackPolicy_fallback_scores_def

lemmas policy_defs = predict_action_probabilities_def is_user_input_expected_def
  has_user_denied_def has_user_confirmed_def has_user_clarified_def last_executed_has_def
  results_for_user_denied_def confidence_scores_for_def index_for_action_def num_actions_def
  USER_INTENT_CONFIRM_def USER_INTENT_DENY_def

text \<open>
  \<open>index_of\<close> finds a position that holds the element, so two different names have
  different positions, and a score vector is zero away from the action it was built for.
\<close>

lemma index_of_Some: "index_of x xs = Some i \<Longrightarrow> i < length xs \<and> xs ! i = x"
  by (induction xs arbitrary: i) (auto split: if_splits)

lemma scores_elsewhere_zero:
  assumes "confidence_scores_for a w d = Inr v" and "index_for_action d b = Some i" and "a \<noteq> b"
  shows "v ! i = 0"
proof -
  from assms(1) obtain j where j: "index_for_action d a = Some j"
    and v: "v = (replicate (num_actions d) 0)[j := w]"
    by (auto simp: confidence_scores_for_def split: option.splits)
  from j have "action_names d ! j = a"
    using index_of_Some[of a "action_names d" j] by (simp add: index_for_action_def)
  moreover from assms(2) have "action_names d ! i = b" "i < num_actions d"
    using index_of_Some[of b "action_names d" i]
    by (simp_all add: index_for_action_def num_actions_def)
  ultimately have "i \<noteq> j" using assms(3) by auto
  with v \<open>i < num_actions d\<close> show ?thesis by simp
qed

text \<open>
  The directory part of \<open>path/two_stage_fallback_policy.json\<close> names the same
  directory as \<open>path\<close>, whatever trailing slashes \<open>path\<close> has.
\<close>

lemma rstrip_slash_idem: "rstrip_slash (rstrip_slash p) = rstrip_slash p"
  by (simp add: rstrip_slash_def dropWhile_idem)

lemma dirname_join:
  assumes "CHR ''/'' \<notin> set f"
  shows "rstrip_slash (os_path_dirname (os_path_join path f)) = rstrip_slash path"
    and "os_path_dirname (os_path_join path f) \<noteq> [] \<Longrightarrow> path \<noteq> []"
proof -
  let ?P = "\<lambda>c. c \<noteq> CHR ''/''"
  have nohd: "\<not> (f \<noteq> [] \<and> hd f = CHR ''/'')"
    using assms by (cases f) auto
  have dropf: "dropWhile ?P (rev f @ ys) = dropWhile ?P ys" for ys
    using assms by (intro dropWhile_append2) auto
  have "dropWhile ?P (rev f) = []"
    using assms by (auto simp: dropWhile_eq_Nil_conv)
  then have empty: "os_path_dirname (os_path_join [] f) = []"
    using nohd assms by (auto simp: os_path_join_def os_path_dirname_def Let_def)
  show "os_path_dirname (os_path_join path f) \<noteq> [] \<Longrightarrow> path \<noteq> []"
    using empty by auto
  show "rstrip_slash (os_path_dirname (os_path_join path f)) = rstrip_slash path"
  proof (cases "path = []")
    case True
    then show ?thesis using empty by simp
  next
    case False
    then obtain c q where rp: "rev path = c # q" by (cases "rev path") auto
    have lastc: "last path = c" using rp False
      by (metis last_rev list.sel(1) rev_rev_ident rev_is_Nil_conv)
    show ?thesis
    proof (cases "c = CHR ''/''")
      case True
      then have j: "os_path_join path f = path @ f"
        using nohd lastc by (auto simp: os_path_join_def)
      have "rev (dropWhile ?P (rev (path @ f))) = path"
        using dropf[of "rev path"] rp True by simp
      then show ?thesis
        unfolding j os_path_dirname_def by (simp add: Let_def rstrip_slash_idem)
    next
      case False
      then have j: "os_path_join path f = path @ ''/'' @ f"
        using nohd lastc \<open>path \<noteq> []\<close> by (auto simp: os_path_join_def)
      have h: "rev (dropWhile ?P (rev (path @ ''/'' @ f))) = path @ ''/''"
        using dropf[of "CHR ''/'' # rev path"] by simp
      have "rstrip_slash (path @ ''/'') = rstrip_slash path"
        by (simp add: rstrip_slash_def)
      then show ?thesis
        unfolding j os_path_dirname_def h by (simp add: Let_def rstrip_slash_idem)
    qed
  qed
qed

lemma isdir_dirname_join:
  assumes "CHR ''/'' \<notin> set f" and "os_path_isdir fs (os_path_dirname (os_path_join path f))"
  shows "os_path_isdir fs path"
  using assms dirname_join[OF assms(1), of path] by (auto simp: os_path_isdir_def)

lemma create_dir_for_file_files:
  "create_dir_for_file p fs = Inr fs' \<Longrightarrow> files fs' = files fs \<and> os_path_dirname p \<noteq> []"
  by (auto simp: create_dir_for_file_def Let_def split: if_splits)

lemma dump_result:
  assumes "dump_obj_as_json_to_file p obj fs = Inr fs'"
  shows "files fs' p = Some (Object obj)" and "dirs fs' = dirs fs"
    and "os_path_dirname p \<noteq> [] \<Longrightarrow> os_path_isdir fs (os_path_dirname p)"
  using assms by (auto simp: dump_obj_as_json_to_file_def Let_def split: if_splits)

lemma cls_kwargs_meta:
  "cls_kwargs e (Object [(''nlu_threshold'', JNumber a), (''core_threshold'', JNumber b),
       (''fallback_action_name'', JString c)])
     = Inr \<lparr> nlu_threshold = a, core_threshold = b, fallback_action_name = c \<rparr>"
  by (simp add: cls_kwargs_def parameter_names_def TwoStageFallbackPolicy_def)

lemma persist_then_load:
  assumes "persist self path fs = Inr fs'"
  shows "load e path fs' = Inr self"
proof -
  let ?cf = "os_path_join path ''two_stage_fallback_policy.json''"
  let ?meta = "[(''nlu_threshold'', JNumber (nlu_threshold self)),
                (''core_threshold'', JNumber (core_threshold self)),
                (''fallback_action_name'', JString (fallback_action_name self))]"
  have nos: "CHR ''/'' \<notin> set ''two_stage_fallback_policy.json''" by simp
  from assms obtain fs1 where c: "create_dir_for_file ?cf fs = Inr fs1"
    and d: "dump_obj_as_json_to_file ?cf ?meta fs1 = Inr fs'"
    by (auto simp: persist_def Let_def split: sum.splits)
  from c have ne: "os_path_dirname ?cf \<noteq> []" by (rule create_dir_for_file_files[THEN conjunct2])
  from dump_result(3)[OF d ne] have "os_path_isdir fs1 (os_path_dirname ?cf)" .
  then have "os_path_isdir fs' (os_path_dirname ?cf)"
    using dump_result(2)[OF d] by (simp add: os_path_isdir_def)
  then have ex: "os_path_exists fs' path"
    using isdir_dirname_join[OF nos] by (simp add: os_path_exists_def)
  have f: "files fs' ?cf = Some (Object ?meta)" by (rule dump_result(1)[OF d])
  have "load e path fs' = cls_kwargs e (Object ?meta)"
    using ex f by (simp add: load_def Let_def os_path_isfile_def json_loads_def)
  also have "\<dots> = Inr self" by (simp only: cls_kwargs_meta) simp
  finally show ?thesis .
qed

lemma load_defaults:
  assumes "\<not> os_path_isfile fs (os_path_join path ''two_stage_fallback_policy.json'')"
  shows "load e path fs = Inr \<lparr> nlu_threshold = 0.3, core_threshold = 0.3,
                                 fallback_action_name = ACTION_DEFAULT_FALLBACK_NAME e \<rparr>"
  using assms by (simp add: load_def Let_def cls_kwargs_def TwoStageFallbackPolicy_def)

text \<open>
  Sample file systems, evaluated.
\<close>

lemma persist_sample:
  "persist \<lparr> nlu_threshold = 0.4, core_threshold = 0.25, fallback_action_name = ''action_handoff'' \<rparr>
      ''models/policy_0'' empty_filesystem
    = Inr \<lparr> dirs = {''models/policy_0'', ''models''},
            files = [''models/policy_0/two_stage_fallback_policy.json'' \<mapsto>
                       Object [(''nlu_threshold'', JNumber 0.4), (''core_threshold'', JNumber 0.25),
                               (''fallback_action_name'', JString ''action_handoff'')]] \<rparr>"
  by (simp add: persist_def create_dir_for_file_def dump_obj_as_json_to_file_def
        os_path_join_def os_path_dirname_def rstrip_slash_def os_path_exists_def os_path_isdir_def
        os_path_isfile_def parent_dirs_def empty_filesystem_def Let_def upt_rec)

lemma sample_dir: "os_path_exists \<lparr> dirs = {''m''}, files = fm \<rparr> ''m''"
  by (simp add: os_path_exists_def os_path_isdir_def rstrip_slash_def)

lemma sample_join: "os_path_join ''m'' ''two_stage_fallback_policy.json''
    = ''m/two_stage_fallback_policy.json''"
  by (simp add: os_path_join_def)

section \<open>Properties\<close>

subsection \<open>The domain precondition\<close>

text \<open>
  Claim C1. For every policy configuration and every dialogue history, if the domain's
  intents lack "confirm" or lack "deny", \<open>predict_action_probabilities\<close> raises
  \<open>InvalidDomain\<close>, and it does so before it reads the tracker or evaluates a rule: the
  result is the same error whatever the tracker, the policy and the imported values are.
\<close>

theorem invalid_domain_raises_before_history:
  assumes "''confirm'' \<notin> set (intents d) \<or> ''deny'' \<notin> set (intents d)"
  shows "predict_action_probabilities e self t d
           = Inl (InvalidDomain (intents_message USER_INTENT_CONFIRM USER_INTENT_CONFIRM))
         \<and> predict_action_probabilities e' self' t' d = predict_action_probabilities e self t d"
  using assms
  by (simp add: predict_action_probabilities_def USER_INTENT_CONFIRM_def USER_INTENT_DENY_def)

text \<open>The theorem at a domain without "deny", for two different trackers.\<close>

theorem invalid_domain_raises_before_history_witness:
  "''deny'' \<notin> set (intents domain_without_deny)
   \<and> predict_action_probabilities example_env example_policy
        (tracker_of (Some ''deny'') (Some 0.1) (Some ''action_listen'')
           [''action_default_ask_confirmation'']) domain_without_deny
      = Inl (InvalidDomain (intents_message USER_INTENT_CONFIRM USER_INTENT_CONFIRM))
   \<and> predict_action_probabilities example_env example_policy empty_tracker domain_without_deny
      = predict_action_probabilities example_env example_policy
          (tracker_of (Some ''deny'') (Some 0.1) (Some ''action_listen'')
             [''action_default_ask_confirmation'']) domain_without_deny"
proof -
  have h: "''deny'' \<notin> set (intents domain_without_deny)"
    by (simp add: domain_without_deny_def)
  then have "''confirm'' \<notin> set (intents domain_without_deny)
             \<or> ''deny'' \<notin> set (intents domain_without_deny)" ..
  from invalid_domain_raises_before_history[OF this] h show ?thesis by blast
qed

subsection \<open>Rule order\<close>

text \<open>
  Claim C2, amended. For a domain with both reserved intents and a tracker for which the
  policy is not waiting for user input (\<open>is_user_input_expected\<close> is false, so rule 1
  does not fire): when the last executed system action is the ask-confirmation prompt,
  the last intent is "deny" and \<open>should_fallback\<close> holds as well, so that the guards of
  rule 2 and rule 6 both hold, the prediction is the result of rule 2, the denial branch
  \<open>results_for_user_denied\<close>.
\<close>

theorem denial_wins_over_fresh_fallback:
  assumes "''confirm'' \<in> set (intents d)" and "''deny'' \<in> set (intents d)"
    and "\<not> is_user_input_expected e self t"
    and "last_executed_has t (ACTION_DEFAULT_ASK_CONFIRMATION e) 0"
    and "name (intent (parse_data (latest_message t))) = Some ''deny''"
    and "should_fallback e self
           (case confidence (intent (parse_data (latest_message t))) of None \<Rightarrow> 1 | Some c \<Rightarrow> c)
           (latest_action_name t)"
  shows "predict_action_probabilities e self t d = results_for_user_denied e self t d"
  using assms
  by (simp add: predict_action_probabilities_def has_user_denied_def
        USER_INTENT_CONFIRM_def USER_INTENT_DENY_def)

text \<open>
  The theorem after the user answered the prompt with "deny" at confidence 0.1: the
  latest action is the listen action, and the result recommends the clarification prompt.
\<close>

theorem denial_wins_over_fresh_fallback_witness:
  "''confirm'' \<in> set (intents example_domain) \<and> ''deny'' \<in> set (intents example_domain)
   \<and> \<not> is_user_input_expected example_env example_policy
         (tracker_of (Some ''deny'') (Some 0.1) (Some ''action_listen'')
            [''action_default_ask_confirmation''])
   \<and> last_executed_has
         (tracker_of (Some ''deny'') (Some 0.1) (Some ''action_listen'')
            [''action_default_ask_confirmation''])
         (ACTION_DEFAULT_ASK_CONFIRMATION example_env) 0
   \<and> should_fallback example_env example_policy 0.1 (Some ''action_listen'')
   \<and> predict_action_probabilities example_env example_policy
         (tracker_of (Some ''deny'') (Some 0.1) (Some ''action_listen'')
            [''action_default_ask_confirmation'']) example_domain
       = results_for_user_denied example_env example_policy
           (tracker_of (Some ''deny'') (Some 0.1) (Some ''action_listen'')
              [''action_default_ask_confirmation'']) example_domain
   \<and> results_for_user_denied example_env example_policy
         (tracker_of (Some ''deny'') (Some 0.1) (Some ''action_listen'')
            [''action_default_ask_confirmation'']) example_domain
       = Inr [0, 0, 0, 0, 1, 0]"
proof -
  let ?t = "tracker_of (Some ''deny'') (Some 0.1) (Some ''action_listen'')
              [''action_default_ask_confirmation'']"
  have h1: "''confirm'' \<in> set (intents example_domain)"
    and h2: "''deny'' \<in> set (intents example_domain)"
    by (simp_all add: example_domain_def)
  have h3: "\<not> is_user_input_expected example_env example_policy ?t"
    by (simp add: sample_defs is_user_input_expected_def)
  have h4: "last_executed_has ?t (ACTION_DEFAULT_ASK_CONFIRMATION example_env) 0"
    by (simp add: sample_defs last_executed_has_def)
  have h5: "name (intent (parse_data (latest_message ?t))) = Some ''deny''"
    by (simp add: tracker_of_def)
  have s: "should_fallback example_env example_policy 0.1 (Some ''action_listen'')"
    by (simp add: sample_defs)
  then have h6: "should_fallback example_env example_policy
           (case confidence (intent (parse_data (latest_message ?t))) of None \<Rightarrow> 1 | Some c \<Rightarrow> c)
           (latest_action_name ?t)"
    by (simp add: tracker_of_def)
  have v: "results_for_user_denied example_env example_policy ?t example_domain
             = Inr [0, 0, 0, 0, 1, 0]"
    by (simp add: sample_defs policy_defs)
  from denial_wins_over_fresh_fallback[OF h1 h2 h3 h4 h5 h6] h1 h2 h3 h4 s v
  show ?thesis by blast
qed

text \<open>
  Claim C2 as stated fails right after the prompt was executed, before the user answers:
  the latest action is the prompt itself, the latest message is still the low-confidence
  "deny" that caused the prompt, the guards of rules 2 and 6 hold, and rule 1 wins: the
  prediction is the listen action, not the result of rule 2.
\<close>

theorem denial_right_after_prompt_counterexample:
  "last_executed_has
      (tracker_of (Some ''deny'') (Some 0.1) (Some ''action_default_ask_confirmation'')
         [''action_default_ask_confirmation''])
      (ACTION_DEFAULT_ASK_CONFIRMATION example_env) 0
   \<and> name (intent (parse_data (latest_message
        (tracker_of (Some ''deny'') (Some 0.1) (Some ''action_default_ask_confirmation'')
           [''action_default_ask_confirmation''])))) = Some ''deny''
   \<and> should_fallback example_env example_policy 0.1 (Some ''action_default_ask_confirmation'')
   \<and> predict_action_probabilities example_env example_policy
        (tracker_of (Some ''deny'') (Some 0.1) (Some ''action_default_ask_confirmation'')
           [''action_default_ask_confirmation'']) example_domain
      = Inr [1, 0, 0, 0, 0, 0]
   \<and> results_for_user_denied example_env example_policy
        (tracker_of (Some ''deny'') (Some 0.1) (Some ''action_default_ask_confirmation'')
           [''action_default_ask_confirmation'']) example_domain
      = Inr [0, 0, 0, 0, 1, 0]
   \<and> predict_action_probabilities example_env example_policy
        (tracker_of (Some ''deny'') (Some 0.1) (Some ''action_default_ask_confirmation'')
           [''action_default_ask_confirmation'']) example_domain
      \<noteq> results_for_user_denied example_env example_policy
        (tracker_of (Some ''deny'') (Some 0.1) (Some ''action_default_ask_confirmation'')
           [''action_default_ask_confirmation'']) example_domain"
  by (simp add: sample_defs policy_defs)

text \<open>
  Claim C3, amended. For a domain with both reserved intents and a tracker for which the
  policy is not waiting for user input: when the last executed system action is the
  ask-confirmation prompt and the last intent is "deny", the prediction is the configured
  fallback action at \<open>FALLBACK_SCORE\<close> if the system action one position before the
  prompt (skip 1) was the ask-clarification prompt, and the ask-clarification action at
  \<open>FALLBACK_SCORE\<close> otherwise.
\<close>

theorem denial_result_by_round:
  assumes "''confirm'' \<in> set (intents d)" and "''deny'' \<in> set (intents d)"
    and "\<not> is_user_input_expected e self t"
    and "last_executed_has t (ACTION_DEFAULT_ASK_CONFIRMATION e) 0"
    and "name (intent (parse_data (latest_message t))) = Some ''deny''"
  shows "predict_action_probabilities e self t d =
     (if last_executed_has t (ACTION_DEFAULT_ASK_CLARIFICATION e) 1
      then confidence_scores_for (fallback_action_name self) (FALLBACK_SCORE e) d
      else confidence_scores_for (ACTION_DEFAULT_ASK_CLARIFICATION e) (FALLBACK_SCORE e) d)"
  using assms
  by (simp add: predict_action_probabilities_def has_user_denied_def
        results_for_user_denied_def USER_INTENT_CONFIRM_def USER_INTENT_DENY_def)

text \<open>
  The theorem at the second denial: confirmation, clarification and confirmation prompts
  were executed, the user answered "deny", and the fallback action is recommended.
\<close>

theorem denial_result_by_round_witness:
  "''confirm'' \<in> set (intents example_domain) \<and> ''deny'' \<in> set (intents example_domain)
   \<and> \<not> is_user_input_expected example_env example_policy
         (tracker_of (Some ''deny'') (Some 0.9) (Some ''action_listen'')
            [''action_default_ask_confirmation'', ''action_default_ask_clarification'',
             ''action_default_ask_confirmation''])
   \<and> last_executed_has
         (tracker_of (Some ''deny'') (Some 0.9) (Some ''action_listen'')
            [''action_default_ask_confirmation'', ''action_default_ask_clarification'',
             ''action_default_ask_confirmation''])
         (ACTION_DEFAULT_ASK_CONFIRMATION example_env) 0
   \<and> last_executed_has
         (tracker_of (Some ''deny'') (Some 0.9) (Some ''action_listen'')
            [''action_default_ask_confirmation'', ''action_default_ask_clarification'',
             ''action_default_ask_confirmation''])
         (ACTION_DEFAULT_ASK_CLARIFICATION example_env) 1
   \<and> predict_action_probabilities example_env example_policy
         (tracker_of (Some ''deny'') (Some 0.9) (Some ''action_listen'')
            [''action_default_ask_confirmation'', ''action_default_ask_clarification'',
             ''action_default_ask_confirmation'']) example_domain
       = confidence_scores_for (fallback_action_name example_policy)
           (FALLBACK_SCORE example_env) example_domain
   \<and> confidence_scores_for (fallback_action_name example_policy)
           (FALLBACK_SCORE example_env) example_domain = Inr [0, 1, 0, 0, 0, 0]"
proof -
  let ?t = "tracker_of (Some ''deny'') (Some 0.9) (Some ''action_listen'')
            [''action_default_ask_confirmation'', ''action_default_ask_clarification'',
             ''action_default_ask_confirmation'']"
  have h1: "''confirm'' \<in> set (intents example_domain)"
    and h2: "''deny'' \<in> set (intents example_domain)"
    by (simp_all add: example_domain_def)
  have h3: "\<not> is_user_input_expected example_env example_policy ?t"
    by (simp add: sample_defs is_user_input_expected_def)
  have h4: "last_executed_has ?t (ACTION_DEFAULT_ASK_CONFIRMATION example_env) 0"
    by (simp add: sample_defs last_executed_has_def)
  have h5: "name (intent (parse_data (latest_message ?t))) = Some ''deny''"
    by (simp add: tracker_of_def)
  have b: "last_executed_has ?t (ACTION_DEFAULT_ASK_CLARIFICATION example_env) 1"
    by (simp add: sample_defs last_executed_has_def)
  have v: "confidence_scores_for (fallback_action_name example_policy)
           (FALLBACK_SCORE example_env) example_domain = Inr [0, 1, 0, 0, 0, 0]"
    by (simp add: sample_defs policy_defs)
  from denial_result_by_round[OF h1 h2 h3 h4 h5] b
  have "predict_action_probabilities example_env example_policy ?t example_domain
       = confidence_scores_for (fallback_action_name example_policy)
           (FALLBACK_SCORE example_env) example_domain" by simp
  with h1 h2 h3 h4 b v show ?thesis by blast
qed

text \<open>
  Claim C3 as stated fails right after the second confirmation prompt was executed: the
  latest message is the "deny" given to the first prompt, the action before the prompt is
  the clarification prompt, and the prediction is the listen action, not the fallback
  action.
\<close>

theorem second_denial_right_after_prompt_counterexample:
  "last_executed_has
      (tracker_of (Some ''deny'') (Some 0.9) (Some ''action_default_ask_confirmation'')
         [''action_default_ask_confirmation'', ''action_default_ask_clarification''])
      (ACTION_DEFAULT_ASK_CONFIRMATION example_env) 0
   \<and> last_executed_has
      (tracker_of (Some ''deny'') (Some 0.9) (Some ''action_default_ask_confirmation'')
         [''action_default_ask_confirmation'', ''action_default_ask_clarification''])
      (ACTION_DEFAULT_ASK_CLARIFICATION example_env) 1
   \<and> name (intent (parse_data (latest_message
        (tracker_of (Some ''deny'') (Some 0.9) (Some ''action_default_ask_confirmation'')
           [''action_default_ask_confirmation'', ''action_default_ask_clarification''])))) = Some ''deny''
   \<and> predict_action_probabilities example_env example_policy
        (tracker_of (Some ''deny'') (Some 0.9) (Some ''action_default_ask_confirmation'')
           [''action_default_ask_confirmation'', ''action_default_ask_clarification'']) example_domain
      = Inr [1, 0, 0, 0, 0, 0]
   \<and> confidence_scores_for (fallback_action_name example_policy)
        (FALLBACK_SCORE example_env) example_domain = Inr [0, 1, 0, 0, 0, 0]
   \<and> predict_action_probabilities example_env example_policy
        (tracker_of (Some ''deny'') (Some 0.9) (Some ''action_default_ask_confirmation'')
           [''action_default_ask_confirmation'', ''action_default_ask_clarification'']) example_domain
      \<noteq> confidence_scores_for (fallback_action_name example_policy)
        (FALLBACK_SCORE example_env) example_domain"
  by (simp add: sample_defs policy_defs)

text \<open>
  Claim C4, amended. For a domain with both reserved intents and a tracker for which the
  policy is not waiting for user input, the two prompts being different actions and the
  revert action differing from the clarification prompt: when the last executed system
  action is the ask-clarification prompt, the prediction is the ask-confirmation action at
  \<open>FALLBACK_SCORE\<close> if \<open>should_fallback\<close> holds and the revert action at
  \<open>FALLBACK_SCORE\<close> if not; in both cases the ask-clarification action has score zero
  in the vector returned.
\<close>

theorem clarification_not_repeated:
  assumes "''confirm'' \<in> set (intents d)" and "''deny'' \<in> set (intents d)"
    and "\<not> is_user_input_expected e self t"
    and "last_executed_has t (ACTION_DEFAULT_ASK_CLARIFICATION e) 0"
    and "ACTION_DEFAULT_ASK_CONFIRMATION e \<noteq> ACTION_DEFAULT_ASK_CLARIFICATION e"
    and "ACTION_REVERT_FALLBACK_EVENTS e \<noteq> ACTION_DEFAULT_ASK_CLARIFICATION e"
  shows "predict_action_probabilities e self t d =
     (if should_fallback e self
           (case confidence (intent (parse_data (latest_message t))) of None \<Rightarrow> 1 | Some c \<Rightarrow> c)
           (latest_action_name t)
      then confidence_scores_for (ACTION_DEFAULT_ASK_CONFIRMATION e) (FALLBACK_SCORE e) d
      else confidence_scores_for (ACTION_REVERT_FALLBACK_EVENTS e) (FALLBACK_SCORE e) d)
    \<and> (\<forall>v i. predict_action_probabilities e self t d = Inr v
               \<and> index_for_action d (ACTION_DEFAULT_ASK_CLARIFICATION e) = Some i
             \<longrightarrow> v ! i = 0)"
proof -
  let ?sf = "should_fallback e self
           (case confidence (intent (parse_data (latest_message t))) of None \<Rightarrow> 1 | Some c \<Rightarrow> c)
           (latest_action_name t)"
  have nd: "\<not> has_user_denied e x t" for x
    using assms(4,5) by (auto simp: has_user_denied_def last_executed_has_def)
  have eq: "predict_action_probabilities e self t d =
     (if ?sf
      then confidence_scores_for (ACTION_DEFAULT_ASK_CONFIRMATION e) (FALLBACK_SCORE e) d
      else confidence_scores_for (ACTION_REVERT_FALLBACK_EVENTS e) (FALLBACK_SCORE e) d)"
    using assms(1-4) nd
    by (simp add: predict_action_probabilities_def has_user_clarified_def
          USER_INTENT_CONFIRM_def USER_INTENT_DENY_def)
  have z: "v ! i = 0" if "predict_action_probabilities e self t d = Inr v"
      and "index_for_action d (ACTION_DEFAULT_ASK_CLARIFICATION e) = Some i" for v i
  proof (cases ?sf)
    case True
    with eq that(1)
    have "confidence_scores_for (ACTION_DEFAULT_ASK_CONFIRMATION e) (FALLBACK_SCORE e) d = Inr v"
      by simp
    then show ?thesis using that(2) assms(5) by (rule scores_elsewhere_zero)
  next
    case False
    with eq that(1)
    have "confidence_scores_for (ACTION_REVERT_FALLBACK_EVENTS e) (FALLBACK_SCORE e) d = Inr v"
      by simp
    then show ?thesis using that(2) assms(6) by (rule scores_elsewhere_zero)
  qed
  show ?thesis using eq z by blast
qed

text \<open>
  The theorem after the user restated the intent at confidence 0.2: the confirmation
  prompt is recommended, and the clarification prompt has index 4 in the domain.
\<close>

theorem clarification_not_repeated_witness:
  "''confirm'' \<in> set (intents example_domain) \<and> ''deny'' \<in> set (intents example_domain)
   \<and> \<not> is_user_input_expected example_env example_policy
         (tracker_of (Some ''greet'') (Some 0.2) (Some ''action_listen'')
            [''action_default_ask_clarification'', ''action_default_ask_confirmation''])
   \<and> last_executed_has
         (tracker_of (Some ''greet'') (Some 0.2) (Some ''action_listen'')
            [''action_default_ask_clarification'', ''action_default_ask_confirmation''])
         (ACTION_DEFAULT_ASK_CLARIFICATION example_env) 0
   \<and> ACTION_DEFAULT_ASK_CONFIRMATION example_env \<noteq> ACTION_DEFAULT_ASK_CLARIFICATION example_env
   \<and> ACTION_REVERT_FALLBACK_EVENTS example_env \<noteq> ACTION_DEFAULT_ASK_CLARIFICATION example_env
   \<and> should_fallback example_env example_policy 0.2 (Some ''action_listen'')
   \<and> predict_action_probabilities example_env example_policy
         (tracker_of (Some ''greet'') (Some 0.2) (Some ''action_listen'')
            [''action_default_ask_clarification'', ''action_default_ask_confirmation''])
         example_domain
       = confidence_scores_for (ACTION_DEFAULT_ASK_CONFIRMATION example_env)
           (FALLBACK_SCORE example_env) example_domain
   \<and> confidence_scores_for (ACTION_DEFAULT_ASK_CONFIRMATION example_env)
           (FALLBACK_SCORE example_env) example_domain = Inr [0, 0, 0, 1, 0, 0]
   \<and> index_for_action example_domain (ACTION_DEFAULT_ASK_CLARIFICATION example_env) = Some 4"
proof -
  let ?t = "tracker_of (Some ''greet'') (Some 0.2) (Some ''action_listen'')
            [''action_default_ask_clarification'', ''action_default_ask_confirmation'']"
  have h1: "''confirm'' \<in> set (intents example_domain)"
    and h2: "''deny'' \<in> set (intents example_domain)"
    by (simp_all add: example_domain_def)
  have h3: "\<not> is_user_input_expected example_env example_policy ?t"
    by (simp add: sample_defs is_user_input_expected_def)
  have h4: "last_executed_has ?t (ACTION_DEFAULT_ASK_CLARIFICATION example_env) 0"
    by (simp add: sample_defs last_executed_has_def)
  have h5: "ACTION_DEFAULT_ASK_CONFIRMATION example_env
              \<noteq> ACTION_DEFAULT_ASK_CLARIFICATION example_env"
    and h6: "ACTION_REVERT_FALLBACK_EVENTS example_env
              \<noteq> ACTION_DEFAULT_ASK_CLARIFICATION example_env"
    by (simp_all add: example_env_def)
  have s: "should_fallback example_env example_policy 0.2 (Some ''action_listen'')"
    by (simp add: sample_defs)
  have v: "confidence_scores_for (ACTION_DEFAULT_ASK_CONFIRMATION example_env)
           (FALLBACK_SCORE example_env) example_domain = Inr [0, 0, 0, 1, 0, 0]"
    and i: "index_for_action example_domain (ACTION_DEFAULT_ASK_CLARIFICATION example_env) = Some 4"
    by (simp_all add: sample_defs policy_defs)
  from clarification_not_repeated[OF h1 h2 h3 h4 h5 h6, THEN conjunct1] s
  have "predict_action_probabilities example_env example_policy ?t example_domain
       = confidence_scores_for (ACTION_DEFAULT_ASK_CONFIRMATION example_env)
           (FALLBACK_SCORE example_env) example_domain"
    by (simp add: tracker_of_def)
  with h1 h2 h3 h4 h5 h6 s v i show ?thesis by blast
qed

text \<open>
  Claim C4 as stated fails right after the clarification prompt was executed: the last
  executed action is that prompt, \<open>should_fallback\<close> is false (confidence 0.9), and
  the prediction is the listen action, not the revert action.
\<close>

theorem right_after_clarification_prompt_counterexample:
  "last_executed_has
      (tracker_of (Some ''deny'') (Some 0.9) (Some ''action_default_ask_clarification'')
         [''action_default_ask_clarification'', ''action_default_ask_confirmation''])
      (ACTION_DEFAULT_ASK_CLARIFICATION example_env) 0
   \<and> \<not> should_fallback example_env example_policy 0.9 (Some ''action_default_ask_clarification'')
   \<and> predict_action_probabilities example_env example_policy
        (tracker_of (Some ''deny'') (Some 0.9) (Some ''action_default_ask_clarification'')
           [''action_default_ask_clarification'', ''action_default_ask_confirmation''])
        example_domain
      = Inr [1, 0, 0, 0, 0, 0]
   \<and> confidence_scores_for (ACTION_REVERT_FALLBACK_EVENTS example_env)
        (FALLBACK_SCORE example_env) example_domain = Inr [0, 0, 1, 0, 0, 0]
   \<and> predict_action_probabilities example_env example_policy
        (tracker_of (Some ''deny'') (Some 0.9) (Some ''action_default_ask_clarification'')
           [''action_default_ask_clarification'', ''action_default_ask_confirmation''])
        example_domain
      \<noteq> confidence_scores_for (ACTION_REVERT_FALLBACK_EVENTS example_env)
        (FALLBACK_SCORE example_env) example_domain"
  by (simp add: sample_defs policy_defs)

text \<open>
  Claim C5, amended. For a domain with both reserved intents and a tracker for which the
  policy is not waiting for user input, the two prompts being different actions: when the
  last executed system action is the ask-confirmation prompt and the last intent is
  "confirm", the prediction is the revert action at \<open>FALLBACK_SCORE\<close>, whatever
  \<open>should_fallback\<close> says of the confirming message.
\<close>

theorem confirmation_trusted_at_any_confidence:
  assumes "''confirm'' \<in> set (intents d)" and "''deny'' \<in> set (intents d)"
    and "\<not> is_user_input_expected e self t"
    and "last_executed_has t (ACTION_DEFAULT_ASK_CONFIRMATION e) 0"
    and "name (intent (parse_data (latest_message t))) = Some ''confirm''"
    and "ACTION_DEFAULT_ASK_CONFIRMATION e \<noteq> ACTION_DEFAULT_ASK_CLARIFICATION e"
  shows "predict_action_probabilities e self t d =
      confidence_scores_for (ACTION_REVERT_FALLBACK_EVENTS e) (FALLBACK_SCORE e) d"
proof -
  have "\<not> has_user_clarified e t"
    using assms(4,6) by (auto simp: has_user_clarified_def last_executed_has_def)
  moreover have "\<not> has_user_denied e (Some ''confirm'') t"
    by (simp add: has_user_denied_def USER_INTENT_DENY_def)
  moreover have "has_user_confirmed e (Some ''confirm'') t"
    using assms(4) by (simp add: has_user_confirmed_def USER_INTENT_CONFIRM_def)
  ultimately show ?thesis
    using assms(1,2,3,5)
    by (simp add: predict_action_probabilities_def USER_INTENT_CONFIRM_def USER_INTENT_DENY_def)
qed

text \<open>
  The theorem for a "confirm" understood at confidence 0.1, where \<open>should_fallback\<close>
  holds.
\<close>

theorem confirmation_trusted_at_any_confidence_witness:
  "''confirm'' \<in> set (intents example_domain) \<and> ''deny'' \<in> set (intents example_domain)
   \<and> \<not> is_user_input_expected example_env example_policy
         (tracker_of (Some ''confirm'') (Some 0.1) (Some ''action_listen'')
            [''action_default_ask_confirmation''])
   \<and> last_executed_has
         (tracker_of (Some ''confirm'') (Some 0.1) (Some ''action_listen'')
            [''action_default_ask_confirmation''])
         (ACTION_DEFAULT_ASK_CONFIRMATION example_env) 0
   \<and> ACTION_DEFAULT_ASK_CONFIRMATION example_env \<noteq> ACTION_DEFAULT_ASK_CLARIFICATION example_env
   \<and> should_fallback example_env example_policy 0.1 (Some ''action_listen'')
   \<and> predict_action_probabilities example_env example_policy
         (tracker_of (Some ''confirm'') (Some 0.1) (Some ''action_listen'')
            [''action_default_ask_confirmation'']) example_domain
       = confidence_scores_for (ACTION_REVERT_FALLBACK_EVENTS example_env)
           (FALLBACK_SCORE example_env) example_domain
   \<and> confidence_scores_for (ACTION_REVERT_FALLBACK_EVENTS example_env)
           (FALLBACK_SCORE example_env) example_domain = Inr [0, 0, 1, 0, 0, 0]"
proof -
  let ?t = "tracker_of (Some ''confirm'') (Some 0.1) (Some ''action_listen'')
            [''action_default_ask_confirmation'']"
  have h1: "''confirm'' \<in> set (intents example_domain)"
    and h2: "''deny'' \<in> set (intents example_domain)"
    by (simp_all add: example_domain_def)
  have h3: "\<not> is_user_input_expected example_env example_policy ?t"
    by (simp add: sample_defs is_user_input_expected_def)
  have h4: "last_executed_has ?t (ACTION_DEFAULT_ASK_CONFIRMATION example_env) 0"
    by (simp add: sample_defs last_executed_has_def)
  have h5: "name (intent (parse_data (latest_message ?t))) = Some ''confirm''"
    by (simp add: tracker_of_def)
  have h6: "ACTION_DEFAULT_ASK_CONFIRMATION example_env
              \<noteq> ACTION_DEFAULT_ASK_CLARIFICATION example_env"
    by (simp add: example_env_def)
  have s: "should_fallback example_env example_policy 0.1 (Some ''action_listen'')"
    by (simp add: sample_defs)
  have v: "confidence_scores_for (ACTION_REVERT_FALLBACK_EVENTS example_env)
           (FALLBACK_SCORE example_env) example_domain = Inr [0, 0, 1, 0, 0, 0]"
    by (simp add: sample_defs policy_defs)
  from confirmation_trusted_at_any_confidence[OF h1 h2 h3 h4 h5 h6] h1 h2 h3 h4 h6 s v
  show ?thesis by blast
qed

text \<open>
  Claim C5 as stated fails right after the prompt was executed, when the message that
  caused the prompt was itself a low-confidence "confirm": the prediction is the listen
  action, not the revert action.
\<close>

theorem confirm_right_after_prompt_counterexample:
  "last_executed_has
      (tracker_of (Some ''confirm'') (Some 0.1) (Some ''action_default_ask_confirmation'')
         [''action_default_ask_confirmation''])
      (ACTION_DEFAULT_ASK_CONFIRMATION example_env) 0
   \<and> name (intent (parse_data (latest_message
        (tracker_of (Some ''confirm'') (Some 0.1) (Some ''action_default_ask_confirmation'')
           [''action_default_ask_confirmation''])))) = Some ''confirm''
   \<and> predict_action_probabilities example_env example_policy
        (tracker_of (Some ''confirm'') (Some 0.1) (Some ''action_default_ask_confirmation'')
           [''action_default_ask_confirmation'']) example_domain
      = Inr [1, 0, 0, 0, 0, 0]
   \<and> confidence_scores_for (ACTION_REVERT_FALLBACK_EVENTS example_env)
        (FALLBACK_SCORE example_env) example_domain = Inr [0, 0, 1, 0, 0, 0]
   \<and> predict_action_probabilities example_env example_policy
        (tracker_of (Some ''confirm'') (Some 0.1) (Some ''action_default_ask_confirmation'')
           [''action_default_ask_confirmation'']) example_domain
      \<noteq> confidence_scores_for (ACTION_REVERT_FALLBACK_EVENTS example_env)
        (FALLBACK_SCORE example_env) example_domain"
  by (simp add: sample_defs policy_defs)

subsection \<open>Empty history and missing intent name\<close>

text \<open>
  Claim C6, amended. For a domain with both reserved intents and an empty history (no
  latest action, no executed system action, no confidence in the latest message, which
  then counts as 1), provided the inherited \<open>should_fallback\<close> is false at confidence 1
  and no last action: rule 1 does not fire, every \<open>last_executed_has\<close> query is false,
  and the prediction is what the inherited \<open>fallback_scores\<close> returns for the domain at
  \<open>core_threshold\<close>; the policy raises no error of its own.
\<close>

theorem empty_history_baseline:
  assumes "''confirm'' \<in> set (intents d)" and "''deny'' \<in> set (intents d)"
    and "latest_action_name t = None" and "executed t = []"
    and "confidence (intent (parse_data (latest_message t))) = None"
    and "\<not> should_fallback e self 1 None"
  shows "\<not> is_user_input_expected e self t
     \<and> (\<forall>a k. \<not> last_executed_has t a k)
     \<and> predict_action_probabilities e self t d = fallback_scores e self d (core_threshold self)"
proof -
  have g: "\<not> is_user_input_expected e self t"
    using assms(3) by (simp add: is_user_input_expected_def)
  have l: "\<not> last_executed_has t a k" for a k
    using assms(4) by (simp add: last_executed_has_def)
  have "predict_action_probabilities e self t d = fallback_scores e self d (core_threshold self)"
    using assms(1,2,3,5,6) g l
    by (simp add: predict_action_probabilities_def has_user_denied_def has_user_confirmed_def
          has_user_clarified_def USER_INTENT_CONFIRM_def USER_INTENT_DENY_def)
  with g l show ?thesis by blast
qed

text \<open>
  The theorem at the sample domain and the default policy: the baseline vector scores the
  fallback action at 0.3.
\<close>

theorem empty_history_baseline_witness:
  "''confirm'' \<in> set (intents example_domain) \<and> ''deny'' \<in> set (intents example_domain)
   \<and> latest_action_name empty_tracker = None \<and> executed empty_tracker = []
   \<and> confidence (intent (parse_data (latest_message empty_tracker))) = None
   \<and> \<not> should_fallback example_env example_policy 1 None
   \<and> predict_action_probabilities example_env example_policy empty_tracker example_domain
       = fallback_scores example_env example_policy example_domain (core_threshold example_policy)
   \<and> fallback_scores example_env example_policy example_domain (core_threshold example_policy)
       = Inr [0, 0.3, 0, 0, 0, 0]"
proof -
  have h1: "''confirm'' \<in> set (intents example_domain)"
    and h2: "''deny'' \<in> set (intents example_domain)"
    by (simp_all add: example_domain_def)
  have h3: "latest_action_name empty_tracker = None" and h4: "executed empty_tracker = []"
    and h5: "confidence (intent (parse_data (latest_message empty_tracker))) = None"
    by (simp_all add: empty_tracker_def tracker_of_def)
  have h6: "\<not> should_fallback example_env example_policy 1 None"
    by (simp add: sample_defs)
  have v: "fallback_scores example_env example_policy example_domain
             (core_threshold example_policy) = Inr [0, 0.3, 0, 0, 0, 0]"
    by (simp add: sample_defs policy_defs)
  from empty_history_baseline[OF h1 h2 h3 h4 h5 h6] h1 h2 h3 h4 h5 h6 v
  show ?thesis by blast
qed

text \<open>
  Claim C6 as stated fails twice on an empty history: with a domain that lacks "deny" the
  call raises \<open>InvalidDomain\<close>; and with both intents present and an \<open>nlu_threshold\<close>
  of 1.5, the default confidence 1 counts as low, rule 6 fires and the confirmation prompt
  is recommended, not the baseline vector.
\<close>

theorem empty_history_counterexample:
  "predict_action_probabilities example_env example_policy empty_tracker domain_without_deny
     = Inl (InvalidDomain
         ''The intents confirm and confirm must be present in the domain file to use this policy.'')
   \<and> should_fallback example_env (TwoStageFallbackPolicy example_env (Some 1.5) None None) 1 None
   \<and> predict_action_probabilities example_env
        (TwoStageFallbackPolicy example_env (Some 1.5) None None) empty_tracker example_domain
     = Inr [0, 0, 0, 1, 0, 0]
   \<and> fallback_scores example_env (TwoStageFallbackPolicy example_env (Some 1.5) None None)
        example_domain (core_threshold (TwoStageFallbackPolicy example_env (Some 1.5) None None))
     = Inr [0, 0.3, 0, 0, 0, 0]"
  by (simp add: sample_defs policy_defs intents_message_def)

text \<open>
  Claim C10. When the latest message's parse data has no intent name, the last intent is
  \<open>None\<close>, equal to neither "confirm" nor "deny": \<open>has_user_denied\<close> and
  \<open>has_user_confirmed\<close> are false; and a reply without intent name to the
  ask-confirmation prompt (the prompt is the last executed system action, the policy is not
  waiting for input, the domain has both intents, the two prompts are different actions) is
  decided by rule 5: the revert action if \<open>should_fallback\<close> is false, the configured
  fallback action otherwise, each at \<open>FALLBACK_SCORE\<close>.
\<close>

theorem nameless_intent_decided_by_rule_5:
  assumes "name (intent (parse_data (latest_message t))) = None"
  shows "\<not> has_user_denied e (name (intent (parse_data (latest_message t)))) t
     \<and> \<not> has_user_confirmed e (name (intent (parse_data (latest_message t)))) t
     \<and> (''confirm'' \<in> set (intents d) \<and> ''deny'' \<in> set (intents d)
          \<and> \<not> is_user_input_expected e self t
          \<and> last_executed_has t (ACTION_DEFAULT_ASK_CONFIRMATION e) 0
          \<and> ACTION_DEFAULT_ASK_CONFIRMATION e \<noteq> ACTION_DEFAULT_ASK_CLARIFICATION e
        \<longrightarrow> predict_action_probabilities e self t d =
             (if \<not> should_fallback e self
                     (case confidence (intent (parse_data (latest_message t))) of
                        None \<Rightarrow> 1 | Some c \<Rightarrow> c)
                     (latest_action_name t)
              then confidence_scores_for (ACTION_REVERT_FALLBACK_EVENTS e) (FALLBACK_SCORE e) d
              else confidence_scores_for (fallback_action_name self) (FALLBACK_SCORE e) d))"
proof -
  have nd: "\<not> has_user_denied e (name (intent (parse_data (latest_message t)))) t"
    and nc: "\<not> has_user_confirmed e (name (intent (parse_data (latest_message t)))) t"
    using assms by (simp_all add: has_user_denied_def has_user_confirmed_def)
  have "predict_action_probabilities e self t d =
             (if \<not> should_fallback e self
                     (case confidence (intent (parse_data (latest_message t))) of
                        None \<Rightarrow> 1 | Some c \<Rightarrow> c)
                     (latest_action_name t)
              then confidence_scores_for (ACTION_REVERT_FALLBACK_EVENTS e) (FALLBACK_SCORE e) d
              else confidence_scores_for (fallback_action_name self) (FALLBACK_SCORE e) d)"
    if v: "''confirm'' \<in> set (intents d)" "''deny'' \<in> set (intents d)"
      and r1: "\<not> is_user_input_expected e self t"
      and p: "last_executed_has t (ACTION_DEFAULT_ASK_CONFIRMATION e) 0"
      and ne: "ACTION_DEFAULT_ASK_CONFIRMATION e \<noteq> ACTION_DEFAULT_ASK_CLARIFICATION e"
  proof -
    have "\<not> has_user_clarified e t"
      using p ne by (auto simp: has_user_clarified_def last_executed_has_def)
    then show ?thesis
      using v r1 p nd nc
      by (simp add: predict_action_probabilities_def USER_INTENT_CONFIRM_def
            USER_INTENT_DENY_def)
  qed
  with nd nc show ?thesis by blast
qed

text \<open>
  The theorem for a reply without intent name at confidence 0.1: the fallback action.
\<close>

theorem nameless_intent_decided_by_rule_5_witness:
  "name (intent (parse_data (latest_message
      (tracker_of None (Some 0.1) (Some ''action_listen'')
         [''action_default_ask_confirmation''])))) = None
   \<and> ''confirm'' \<in> set (intents example_domain) \<and> ''deny'' \<in> set (intents example_domain)
   \<and> \<not> is_user_input_expected example_env example_policy
         (tracker_of None (Some 0.1) (Some ''action_listen'')
            [''action_default_ask_confirmation''])
   \<and> last_executed_has
         (tracker_of None (Some 0.1) (Some ''action_listen'')
            [''action_default_ask_confirmation''])
         (ACTION_DEFAULT_ASK_CONFIRMATION example_env) 0
   \<and> ACTION_DEFAULT_ASK_CONFIRMATION example_env \<noteq> ACTION_DEFAULT_ASK_CLARIFICATION example_env
   \<and> should_fallback example_env example_policy 0.1 (Some ''action_listen'')
   \<and> predict_action_probabilities example_env example_policy
         (tracker_of None (Some 0.1) (Some ''action_listen'')
            [''action_default_ask_confirmation'']) example_domain
       = confidence_scores_for (fallback_action_name example_policy)
           (FALLBACK_SCORE example_env) example_domain
   \<and> confidence_scores_for (fallback_action_name example_policy)
           (FALLBACK_SCORE example_env) example_domain = Inr [0, 1, 0, 0, 0, 0]"
proof -
  let ?t = "tracker_of None (Some 0.1) (Some ''action_listen'')
            [''action_default_ask_confirmation'']"
  have h0: "name (intent (parse_data (latest_message ?t))) = None"
    by (simp add: tracker_of_def)
  have h1: "''confirm'' \<in> set (intents example_domain)"
    and h2: "''deny'' \<in> set (intents example_domain)"
    by (simp_all add: example_domain_def)
  have h3: "\<not> is_user_input_expected example_env example_policy ?t"
    by (simp add: sample_defs is_user_input_expected_def)
  have h4: "last_executed_has ?t (ACTION_DEFAULT_ASK_CONFIRMATION example_env) 0"
    by (simp add: sample_defs last_executed_has_def)
  have h5: "ACTION_DEFAULT_ASK_CONFIRMATION example_env
              \<noteq> ACTION_DEFAULT_ASK_CLARIFICATION example_env"
    by (simp add: example_env_def)
  have s: "should_fallback example_env example_policy 0.1 (Some ''action_listen'')"
    by (simp add: sample_defs)
  have v: "confidence_scores_for (fallback_action_name example_policy)
           (FALLBACK_SCORE example_env) example_domain = Inr [0, 1, 0, 0, 0, 0]"
    by (simp add: sample_defs policy_defs)
  from nameless_intent_decided_by_rule_5[OF h0, of example_env example_domain example_policy]
    h1 h2 h3 h4 h5 s
  have "predict_action_probabilities example_env example_policy ?t example_domain
       = confidence_scores_for (fallback_action_name example_policy)
           (FALLBACK_SCORE example_env) example_domain"
    by (simp add: tracker_of_def)
  with h0 h1 h2 h3 h4 h5 s v show ?thesis by blast
qed

text \<open>
  Claim C9. Whenever the domain lacks "confirm" or "deny", the message of the
  \<open>InvalidDomain\<close> error has the intent name "confirm" in both of its placeholders, and
  the name "deny" occurs nowhere in it.
\<close>

theorem invalid_domain_message_names_confirm_twice:
  assumes "''confirm'' \<notin> set (intents d) \<or> ''deny'' \<notin> set (intents d)"
  shows "\<exists>msg. predict_action_probabilities e self t d = Inl (InvalidDomain msg)
           \<and> msg = intents_message ''confirm'' ''confirm''
           \<and> msg = ''The intents confirm and confirm must be present in the domain file to use this policy.''
           \<and> \<not> sublist ''deny'' msg"
proof -
  have m: "intents_message ''confirm'' ''confirm''
      = ''The intents confirm and confirm must be present in the domain file to use this policy.''"
    by (simp add: intents_message_def)
  have s: "\<not> sublist ''deny''
      ''The intents confirm and confirm must be present in the domain file to use this policy.''"
    by (simp add: sublist_Cons_right)
  have "predict_action_probabilities e self t d
      = Inl (InvalidDomain (intents_message ''confirm'' ''confirm''))"
    using assms
    by (simp add: predict_action_probabilities_def USER_INTENT_CONFIRM_def USER_INTENT_DENY_def)
  with m s show ?thesis by simp
qed

text \<open>The theorem at a domain without "deny": the text of the message.\<close>

theorem invalid_domain_message_names_confirm_twice_witness:
  "''deny'' \<notin> set (intents domain_without_deny)
   \<and> predict_action_probabilities example_env example_policy empty_tracker domain_without_deny
       = Inl (InvalidDomain
           ''The intents confirm and confirm must be present in the domain file to use this policy.'')"
proof -
  have h: "''deny'' \<notin> set (intents domain_without_deny)"
    by (simp add: domain_without_deny_def)
  then have "''confirm'' \<notin> set (intents domain_without_deny)
             \<or> ''deny'' \<notin> set (intents domain_without_deny)" ..
  from invalid_domain_message_names_confirm_twice[OF this, of example_env example_policy empty_tracker] h
  show ?thesis by auto
qed

subsection \<open>Persisting and loading\<close>

text \<open>
  Claim C7. For every pair of thresholds and every fallback action name: loading from a
  path to which the policy was persisted (\<open>persist\<close> succeeded) gives back the policy,
  its three fields unchanged; and loading from a path under which no persisted file exists
  gives the constructor's defaults, 0.3, 0.3 and \<open>ACTION_DEFAULT_FALLBACK_NAME\<close>.
\<close>

theorem persist_load_roundtrip:
  "(persist self path fs = Inr fs' \<longrightarrow> load e path fs' = Inr self)
   \<and> (\<not> os_path_isfile fs (os_path_join path ''two_stage_fallback_policy.json'')
        \<longrightarrow> load e path fs = Inr \<lparr> nlu_threshold = 0.3, core_threshold = 0.3,
                                      fallback_action_name = ACTION_DEFAULT_FALLBACK_NAME e \<rparr>)"
  using persist_then_load load_defaults by blast

text \<open>
  The theorem for a policy persisted under \<open>models/policy_0\<close> of an empty file
  system, and for loading from the empty file system.
\<close>

theorem persist_load_roundtrip_witness:
  "persist \<lparr> nlu_threshold = 0.4, core_threshold = 0.25, fallback_action_name = ''action_handoff'' \<rparr>
      ''models/policy_0'' empty_filesystem
    = Inr \<lparr> dirs = {''models/policy_0'', ''models''},
            files = [''models/policy_0/two_stage_fallback_policy.json'' \<mapsto>
                       Object [(''nlu_threshold'', JNumber 0.4), (''core_threshold'', JNumber 0.25),
                               (''fallback_action_name'', JString ''action_handoff'')]] \<rparr>
   \<and> load example_env ''models/policy_0''
        \<lparr> dirs = {''models/policy_0'', ''models''},
          files = [''models/policy_0/two_stage_fallback_policy.json'' \<mapsto>
                     Object [(''nlu_threshold'', JNumber 0.4), (''core_threshold'', JNumber 0.25),
                             (''fallback_action_name'', JString ''action_handoff'')]] \<rparr>
      = Inr \<lparr> nlu_threshold = 0.4, core_threshold = 0.25,
              fallback_action_name = ''action_handoff'' \<rparr>
   \<and> \<not> os_path_isfile empty_filesystem
          (os_path_join ''models/policy_0'' ''two_stage_fallback_policy.json'')
   \<and> load example_env ''models/policy_0'' empty_filesystem
      = Inr \<lparr> nlu_threshold = 0.3, core_threshold = 0.3,
              fallback_action_name = ''action_default_fallback'' \<rparr>"
proof -
  note p = persist_sample
  have n: "\<not> os_path_isfile empty_filesystem
          (os_path_join ''models/policy_0'' ''two_stage_fallback_policy.json'')"
    by (simp add: os_path_isfile_def empty_filesystem_def)
  have d: "ACTION_DEFAULT_FALLBACK_NAME example_env = ''action_default_fallback''"
    by (simp add: example_env_def)
  from persist_load_roundtrip[of _ "''models/policy_0''" empty_filesystem _ example_env] p n d
  show ?thesis by auto
qed

text \<open>
  Claim C8, amended. For a persisted record under an existing path: if its keys are among
  the three parameters of the constructor (thresholds bound to numbers, the action name to
  a string), \<open>load\<close> succeeds and every parameter without a key takes its default; if
  it has a key beyond the three, \<open>load\<close> raises \<open>TypeError\<close>.
\<close>

theorem load_binds_parameters_only:
  assumes "os_path_exists fs path"
    and "files fs (os_path_join path ''two_stage_fallback_policy.json'') = Some (Object meta)"
  shows "(set (map fst meta) \<subseteq> set parameter_names
          \<and> map_of meta ''nlu_threshold'' = map_option JNumber n
          \<and> map_of meta ''core_threshold'' = map_option JNumber c
          \<and> map_of meta ''fallback_action_name'' = map_option JString f
         \<longrightarrow> load e path fs = Inr (TwoStageFallbackPolicy e n c f))
      \<and> (\<not> set (map fst meta) \<subseteq> set parameter_names \<longrightarrow> load e path fs = Inl TypeError)"
proof -
  have l: "load e path fs = cls_kwargs e (Object meta)"
    using assms by (simp add: load_def Let_def os_path_isfile_def json_loads_def)
  have ex: "list_ex (\<lambda>k. k \<notin> set parameter_names) (map fst meta)
              \<longleftrightarrow> \<not> set (map fst meta) \<subseteq> set parameter_names"
    by (auto simp: list_ex_iff)
  have fk: "float_kwarg (map_option JNumber x) = Some x" for x by (cases x) simp_all
  have tk: "text_kwarg (map_option JString x) = Some x" for x by (cases x) simp_all
  show ?thesis
    unfolding l cls_kwargs_def using ex by (auto simp: fk tk)
qed

text \<open>
  The theorem for a record with only \<open>nlu_threshold\<close>, and for one with the extra key
  \<open>priority\<close>.
\<close>

theorem load_binds_parameters_only_witness:
  "os_path_exists
      \<lparr> dirs = {''m''},
        files = [''m/two_stage_fallback_policy.json'' \<mapsto> Object [(''nlu_threshold'', JNumber 0.5)]] \<rparr>
      ''m''
   \<and> set (map fst [(''nlu_threshold'', JNumber 0.5)]) \<subseteq> set parameter_names
   \<and> load example_env ''m''
       \<lparr> dirs = {''m''},
         files = [''m/two_stage_fallback_policy.json'' \<mapsto> Object [(''nlu_threshold'', JNumber 0.5)]] \<rparr>
     = Inr (TwoStageFallbackPolicy example_env (Some 0.5) None None)
   \<and> TwoStageFallbackPolicy example_env (Some 0.5) None None
     = \<lparr> nlu_threshold = 0.5, core_threshold = 0.3,
         fallback_action_name = ''action_default_fallback'' \<rparr>
   \<and> \<not> set (map fst [(''nlu_threshold'', JNumber 0.5), (''priority'', JNumber 1)])
         \<subseteq> set parameter_names
   \<and> load example_env ''m''
       \<lparr> dirs = {''m''},
         files = [''m/two_stage_fallback_policy.json'' \<mapsto>
                    Object [(''nlu_threshold'', JNumber 0.5), (''priority'', JNumber 1)]] \<rparr>
     = Inl TypeError"
proof -
  let ?fs1 = "\<lparr> dirs = {''m''},
        files = [''m/two_stage_fallback_policy.json'' \<mapsto> Object [(''nlu_threshold'', JNumber 0.5)]] \<rparr>"
  let ?fs2 = "\<lparr> dirs = {''m''},
         files = [''m/two_stage_fallback_policy.json'' \<mapsto>
                    Object [(''nlu_threshold'', JNumber 0.5), (''priority'', JNumber 1)]] \<rparr>"
  have f1: "files ?fs1 (os_path_join ''m'' ''two_stage_fallback_policy.json'')
              = Some (Object [(''nlu_threshold'', JNumber 0.5)])"
    and f2: "files ?fs2 (os_path_join ''m'' ''two_stage_fallback_policy.json'')
              = Some (Object [(''nlu_threshold'', JNumber 0.5), (''priority'', JNumber 1)])"
    by (simp_all add: sample_join)
  have k1: "set (map fst [(''nlu_threshold'', JNumber 0.5)]) \<subseteq> set parameter_names"
    and k2: "\<not> set (map fst [(''nlu_threshold'', JNumber 0.5), (''priority'', JNumber 1)])
         \<subseteq> set parameter_names"
    by (simp_all add: parameter_names_def)
  have v: "TwoStageFallbackPolicy example_env (Some 0.5) None None
     = \<lparr> nlu_threshold = 0.5, core_threshold = 0.3,
         fallback_action_name = ''action_default_fallback'' \<rparr>"
    by (simp add: TwoStageFallbackPolicy_def example_env_def)
  from load_binds_parameters_only[OF sample_dir f1, of "Some 0.5" None None example_env, THEN conjunct1] k1
  have a: "load example_env ''m'' ?fs1 = Inr (TwoStageFallbackPolicy example_env (Some 0.5) None None)"
    by simp
  from load_binds_parameters_only[OF sample_dir f2, of None None None example_env, THEN conjunct2] k2
  have b: "load example_env ''m'' ?fs2 = Inl TypeError" by blast
  from sample_dir[of "[''m/two_stage_fallback_policy.json'' \<mapsto> Object [(''nlu_threshold'', JNumber 0.5)]]"]
    k1 a v k2 b
  show ?thesis by blast
qed

text \<open>
  Claim C8 as stated fails for a record that has the three fields and one more key:
  \<open>load\<close> raises \<open>TypeError\<close> instead of ignoring the key.
\<close>

theorem unknown_key_counterexample:
  "os_path_isfile
      \<lparr> dirs = {''m''},
        files = [''m/two_stage_fallback_policy.json'' \<mapsto>
                   Object [(''nlu_threshold'', JNumber 0.4), (''core_threshold'', JNumber 0.25),
                           (''fallback_action_name'', JString ''action_handoff''),
                           (''priority'', JNumber 1)]] \<rparr>
      (os_path_join ''m'' ''two_stage_fallback_policy.json'')
   \<and> load example_env ''m''
      \<lparr> dirs = {''m''},
        files = [''m/two_stage_fallback_policy.json'' \<mapsto>
                   Object [(''nlu_threshold'', JNumber 0.4), (''core_threshold'', JNumber 0.25),
                           (''fallback_action_name'', JString ''action_handoff''),
                           (''priority'', JNumber 1)]] \<rparr>
    = Inl TypeError"
  by (simp add: load_def Let_def os_path_exists_def os_path_isdir_def os_path_isfile_def
        rstrip_slash_def os_path_join_def json_loads_def cls_kwargs_def parameter_names_def)

end
